theory Spec2Isabelle
  imports Main "HOL-Library.Char_ord" "HOL-Library.List_Lexorder"
begin

section \<open>Bakery dashboard: item classifier and aggregations\<close>

text \<open>
  The dashboard script \<^verbatim>\<open>pages/07_*.py\<close> loads \<^verbatim>\<open>Bakery.csv\<close>, classifies every item
  name with \<^verbatim>\<open>map_item_category\<close>, and shows three aggregations: the top items of a
  daypart, the top items of a category, and the number of distinct transactions per day
  type together with a weekend/weekday comparison.

  Python strings are sequences of code points. An item name is modelled as a \<^typ>\<open>string\<close>
  whose characters stand for the code points 0 to 255; every keyword of the classifier
  is ASCII.
\<close>

subsection \<open>String operations used by the classifier\<close>

text \<open>\<^verbatim>\<open>str.lower()\<close> on the code points 0 to 255: the ASCII capitals and the Latin-1
  capitals (all of 192 to 222 but the multiplication sign 215) move up by 32.\<close>

definition lower_char :: "char \<Rightarrow> char" where
  "lower_char c =
     (let n = (of_char c :: nat)
      in if (65 \<le> n \<and> n \<le> 90) \<or> (192 \<le> n \<and> n \<le> 222 \<and> n \<noteq> 215)
         then char_of (n + 32) else c)"

definition lower :: "string \<Rightarrow> string" where
  "lower s = map lower_char s"

text \<open>\<^verbatim>\<open>str.isspace()\<close> on one code point below 256: tab to carriage return, the four
  separators 28 to 31, space, next-line 133 and no-break space 160.\<close>

definition isspace :: "char \<Rightarrow> bool" where
  "isspace c =
     (let n = (of_char c :: nat)
      in (9 \<le> n \<and> n \<le> 13) \<or> (28 \<le> n \<and> n \<le> 32) \<or> n = 133 \<or> n = 160)"

text \<open>\<^verbatim>\<open>str.strip()\<close> without argument removes leading and trailing whitespace.\<close>

definition strip :: "string \<Rightarrow> string" where
  "strip s = rev (dropWhile isspace (rev (dropWhile isspace s)))"

text \<open>\<^verbatim>\<open>m in item\<close> on strings: \<open>m\<close> occurs in \<open>item\<close> as a contiguous substring.\<close>

primrec in_str :: "string \<Rightarrow> string \<Rightarrow> bool" where
  "in_str m [] = (m = [])"
| "in_str m (c # cs) = (take (length m) (c # cs) = m \<or> in_str m cs)"

subsection \<open>The classifier \<^verbatim>\<open>map_item_category\<close>\<close>

definition meals :: "string list" where
  "meals = [''sandwich'', ''spanish brunch'', ''soup'', ''tacos/fajita'', ''focaccia'',
            ''scandinavian'', ''baguette'', ''scone'', ''bowl'', ''toast'', ''miso'',
            ''truffle'', ''bacon'', ''eggs'', ''extra salami or feta'', ''choc spread'',
            ''brownie'', ''tiffin'']"

text \<open>\<^verbatim>\<open>any(m in item for m in meals)\<close>.\<close>

primrec any_in :: "string list \<Rightarrow> string \<Rightarrow> bool" where
  "any_in [] item = False"
| "any_in (m # ms) item = (in_str m item \<or> any_in ms item)"

text \<open>The function returns a pair of strings. Every branch of the source returns, so the
  \<^verbatim>\<open>if\<close>/\<^verbatim>\<open>elif\<close> groups form one chain in source order.\<close>

definition map_item_category :: "string \<Rightarrow> string \<times> string" where
  "map_item_category item0 =
     (let item = strip (lower item0)
      in if any_in meals item then (''Meal'', ''meal'')
         else if in_str ''coffee'' item \<or> in_str ''latte'' item
                 \<or> in_str ''espresso'' item \<or> in_str ''cappuccino'' item
              then (''Drink'', ''coffee'')
         else if in_str ''tea'' item \<or> in_str ''hot chocolate'' item
              then (''Drink'', ''tea'')
         else if in_str ''coke'' item \<or> in_str ''juice'' item
                 \<or> in_str ''smoothies'' item \<or> in_str ''fanta'' item
              then (''Drink'', ''sweet'')
         else if item = ''bread'' then (''Dessert'', ''bread'')
         else if in_str ''cookies'' item \<or> in_str ''biscotti'' item \<or> in_str ''granola'' item
              then (''Dessert'', ''crunch'')
         else if in_str ''cake'' item \<or> in_str ''tart'' item \<or> in_str ''fudge'' item
              then (''Dessert'', ''sweet'')
         else if in_str ''pastry'' item \<or> in_str ''medialuna'' item \<or> in_str ''muffin'' item
              then (''Dessert'', ''soft'')
         else (''Other'', ''other''))"

subsection \<open>The reference cascade of the specification\<close>

text \<open>The specification describes the classifier as ordered rule groups over the
  normalised string, the first rule that fires giving the result. A rule either asks
  for one of several keywords as a substring or for equality with a fixed string.\<close>

datatype rule = ContainsAny "string list" | EqualTo string

fun fires :: "rule \<Rightarrow> string \<Rightarrow> bool" where
  "fires (ContainsAny ks) s = (filter (\<lambda>k. in_str k s) ks \<noteq> [])"
| "fires (EqualTo k) s = (s = k)"

fun first_match :: "(rule \<times> string \<times> string) list \<Rightarrow> string \<Rightarrow> string \<times> string" where
  "first_match [] s = (''Other'', ''other'')"
| "first_match ((r, res) # rs) s = (if fires r s then res else first_match rs s)"

definition reference_rules :: "(rule \<times> string \<times> string) list" where
  "reference_rules =
     [(ContainsAny [''sandwich'', ''soup'', ''tacos/fajita'', ''focaccia'', ''scandinavian'',
                    ''baguette'', ''scone'', ''bowl'', ''toast'', ''miso'', ''truffle'',
                    ''bacon'', ''eggs'', ''extra salami or feta'', ''choc spread'',
                    ''brownie'', ''tiffin'', ''spanish brunch''], (''Meal'', ''meal'')),
      (ContainsAny [''coffee'', ''latte'', ''espresso'', ''cappuccino''], (''Drink'', ''coffee'')),
      (ContainsAny [''tea'', ''hot chocolate''], (''Drink'', ''tea'')),
      (ContainsAny [''coke'', ''juice'', ''smoothies'', ''fanta''], (''Drink'', ''sweet'')),
      (EqualTo ''bread'', (''Dessert'', ''bread'')),
      (ContainsAny [''cookies'', ''biscotti'', ''granola''], (''Dessert'', ''crunch'')),
      (ContainsAny [''cake'', ''tart'', ''fudge''], (''Dessert'', ''sweet'')),
      (ContainsAny [''pastry'', ''medialuna'', ''muffin''], (''Dessert'', ''soft''))]"

definition reference_cascade :: "string \<Rightarrow> string \<times> string" where
  "reference_cascade s = first_match reference_rules s"

text \<open>The fixed two-level taxonomy: each category with its sub-categories.\<close>

definition taxonomy :: "(string \<times> string) list" where
  "taxonomy =
     [(''Meal'', ''meal''),
      (''Drink'', ''coffee''), (''Drink'', ''tea''), (''Drink'', ''sweet''),
      (''Dessert'', ''bread''), (''Dessert'', ''crunch''), (''Dessert'', ''sweet''),
      (''Dessert'', ''soft''),
      (''Other'', ''other'')]"

subsection \<open>The table\<close>

text \<open>One line of \<^verbatim>\<open>Bakery.csv\<close>: the text of the three text fields and the number of
  the transaction (\<open>None\<close> when the numeric field is blank).\<close>

record csv_row =
  csv_TransactionNo :: "int option"
  csv_Items :: string
  csv_DayType :: string
  csv_Daypart :: string

text \<open>One row of the data frame: every cell is a value or missing (\<open>None\<close>, pandas' NaN).\<close>

record df_row =
  TransactionNo :: "int option"
  Items :: "string option"
  DayType :: "string option"
  Daypart :: "string option"

text \<open>The frame after the two derived columns have been added.\<close>

record derived_row = df_row +
  Category :: string
  Sub_Category :: string

text \<open>\<^verbatim>\<open>pd.read_csv\<close> reads a text field as missing when its text is one of the
  missing-value markers \<open>na\<close>. The list of markers belongs to pandas, so it is a
  parameter here; with pandas' defaults it contains the empty text.\<close>

definition read_cell :: "string list \<Rightarrow> string \<Rightarrow> string option" where
  "read_cell na txt = (if txt \<in> set na then None else Some txt)"

definition read_csv :: "string list \<Rightarrow> csv_row list \<Rightarrow> df_row list" where
  "read_csv na rows =
     map (\<lambda>r. \<lparr>TransactionNo = csv_TransactionNo r,
                Items = read_cell na (csv_Items r),
                DayType = read_cell na (csv_DayType r),
                Daypart = read_cell na (csv_Daypart r)\<rparr>) rows"

text \<open>\<^verbatim>\<open>df.dropna(subset=['Items'])\<close>.\<close>

definition dropna_Items :: "df_row list \<Rightarrow> df_row list" where
  "dropna_Items df = filter (\<lambda>r. Items r \<noteq> None) df"

definition daypart_order :: "string list" where
  "daypart_order = [''Morning'', ''Afternoon'', ''Evening'', ''Night'']"

text \<open>\<^verbatim>\<open>pd.Categorical(values, categories=cats)\<close> on one cell: a value that is not a
  category becomes missing.\<close>

definition Categorical :: "string list \<Rightarrow> string option \<Rightarrow> string option" where
  "Categorical cats v =
     (case v of None \<Rightarrow> None | Some x \<Rightarrow> if x \<in> set cats then Some x else None)"

text \<open>\<^verbatim>\<open>load_data\<close>: the file is \<open>None\<close> when \<^verbatim>\<open>Bakery.csv\<close> does not exist, and then the
  function returns \<^verbatim>\<open>None\<close>.\<close>

definition load_data :: "string list \<Rightarrow> csv_row list option \<Rightarrow> df_row list option" where
  "load_data na file =
     (case file of
        None \<Rightarrow> None
      | Some rows \<Rightarrow>
          (let df = read_csv na rows;
               df = dropna_Items df;
               df = map (\<lambda>r. r\<lparr>Daypart := Categorical daypart_order (Daypart r)\<rparr>) df
           in Some df))"




subsection \<open>Counting items\<close>

text \<open>The values of a column that are not missing.\<close>

definition dropna :: "'a option list \<Rightarrow> 'a list" where
  "dropna col = map the (filter (\<lambda>v. v \<noteq> None) col)"

text \<open>The distinct values of a list in the order of their first occurrence.\<close>

primrec first_seen :: "'a list \<Rightarrow> 'a list" where
  "first_seen [] = []"
| "first_seen (x # xs) = x # removeAll x (first_seen xs)"

text \<open>The position of the first occurrence of a value (the length when there is none).\<close>

primrec first_index :: "'a \<Rightarrow> 'a list \<Rightarrow> nat" where
  "first_index x [] = 0"
| "first_index x (y # ys) = (if x = y then 0 else Suc (first_index x ys))"

text \<open>
  Modelled from the spec: the order in which \<^verbatim>\<open>Series.value_counts()\<close> returns values of
  equal count. The function is pandas library code, outside the repository; the
  specification describes it as a stable sort by descending count of the values in
  first-seen order. Missing values are not counted. \<^const>\<open>sort_key\<close> is insertion
  sort, which is stable.
\<close>

definition value_counts :: "'a option list \<Rightarrow> ('a \<times> nat) list" where
  "value_counts col =
     (let vals = dropna col
      in sort_key (\<lambda>p. - int (snd p)) (map (\<lambda>k. (k, count_list vals k)) (first_seen vals)))"

text \<open>\<^verbatim>\<open>df[df['Daypart'] == selected_daypart]['Items']\<close>: a missing daypart equals nothing.\<close>

definition daypart_items :: "string \<Rightarrow> ('a df_row_scheme) list \<Rightarrow> string option list" where
  "daypart_items d df = map Items (filter (\<lambda>r. Daypart r = Some d) df)"

text \<open>\<^verbatim>\<open>.value_counts().reset_index().head(limit)\<close>; the script uses the limit 5.\<close>

definition topItemsByDaypart ::
  "string \<Rightarrow> nat \<Rightarrow> ('a df_row_scheme) list \<Rightarrow> (string \<times> nat) list" where
  "topItemsByDaypart d limit df = take limit (value_counts (daypart_items d df))"

definition category_items ::
  "string \<Rightarrow> string \<Rightarrow> ('a derived_row_scheme) list \<Rightarrow> string option list" where
  "category_items c s df = map Items (filter (\<lambda>r. Category r = c \<and> Sub_Category r = s) df)"

text \<open>The same with the category filter; the script uses the limit 10.\<close>

definition topItemsByCategory ::
  "string \<Rightarrow> string \<Rightarrow> nat \<Rightarrow> ('a derived_row_scheme) list \<Rightarrow> (string \<times> nat) list" where
  "topItemsByCategory c s limit df = take limit (value_counts (category_items c s df))"

subsection \<open>Transactions per day type\<close>

text \<open>\<^verbatim>\<open>Series.nunique()\<close>: the number of distinct values that are not missing.\<close>

definition nunique :: "'a option list \<Rightarrow> nat" where
  "nunique col = length (remdups (dropna col))"

text \<open>\<^verbatim>\<open>df.groupby('DayType')['TransactionNo'].nunique().reset_index()\<close>: one entry for
  each day type that occurs, in sorted order; rows with a missing day type belong to no
  group.\<close>

definition transactionCountByDayType :: "('a df_row_scheme) list \<Rightarrow> (string \<times> nat) list" where
  "transactionCountByDayType df =
     map (\<lambda>k. (k, nunique (map TransactionNo (filter (\<lambda>r. DayType r = Some k) df))))
         (sort (remdups (dropna (map DayType df))))"

datatype error = IndexError

text \<open>\<^verbatim>\<open>.iloc[0]\<close> raises \<^verbatim>\<open>IndexError\<close> on an empty selection.\<close>

definition iloc0 :: "'a list \<Rightarrow> error + 'a" where
  "iloc0 xs = (case xs of [] \<Rightarrow> Inl IndexError | x # _ \<Rightarrow> Inr x)"

text \<open>\<^verbatim>\<open>sales_by_day[sales_by_day['DayType'] == k]['Total_Transactions']\<close>.\<close>

definition total_of :: "string \<Rightarrow> (string \<times> nat) list \<Rightarrow> nat list" where
  "total_of k sales = map snd (filter (\<lambda>p. fst p = k) sales)"

text \<open>\<^verbatim>\<open>sales_by_day['Total_Transactions'].max()\<close>: missing for an empty frame.\<close>

definition max_sales :: "(string \<times> nat) list \<Rightarrow> nat option" where
  "max_sales sales =
     (case map snd sales of [] \<Rightarrow> None | c # cs \<Rightarrow> Some (fold max cs c))"

text \<open>The colours of the two bars; reading the weekend total raises when there is none.\<close>

definition color_map :: "(string \<times> nat) list \<Rightarrow> error + (string \<times> string) list" where
  "color_map sales =
     (case iloc0 (total_of ''Weekend'' sales) of
        Inl e \<Rightarrow> Inl e
      | Inr w \<Rightarrow>
          if Some w = max_sales sales
          then Inr [(''Weekend'', ''#E36496''), (''Weekday'', ''#FADADD'')]
          else Inr [(''Weekday'', ''#E36496''), (''Weekend'', ''#FADADD'')])"

text \<open>The message under the chart names the weekend only when its total is greater.\<close>

definition winner :: "nat \<Rightarrow> nat \<Rightarrow> string" where
  "winner weekend_sales weekday_sales =
     (if weekend_sales > weekday_sales then ''Weekend'' else ''Weekday'')"

text \<open>The second tab in the order of the script: the totals, the colours, the two
  totals read again for the summary, and the message.\<close>

definition compareWeekendVsWeekday ::
  "('a df_row_scheme) list \<Rightarrow> error + (nat \<times> nat \<times> string)" where
  "compareWeekendVsWeekday df =
     (let sales_by_day = transactionCountByDayType df
      in case color_map sales_by_day of
           Inl e \<Rightarrow> Inl e
         | Inr colors \<Rightarrow>
             (case iloc0 (total_of ''Weekend'' sales_by_day) of
                Inl e \<Rightarrow> Inl e
              | Inr weekend_sales \<Rightarrow>
                  (case iloc0 (total_of ''Weekday'' sales_by_day) of
                     Inl e \<Rightarrow> Inl e
                   | Inr weekday_sales \<Rightarrow>
                       Inr (weekend_sales, weekday_sales,
                            winner weekend_sales weekday_sales))))"

subsection \<open>The two memoised functions across runs of the script\<close>








subsection \<open>Sample tables\<close>

definition sample_csv :: "csv_row list" where
  "sample_csv =
     [\<lparr>csv_TransactionNo = Some 1, csv_Items = ''Bread'', csv_DayType = ''Weekend'',
       csv_Daypart = ''Morning''\<rparr>,
      \<lparr>csv_TransactionNo = Some 1, csv_Items = [], csv_DayType = ''Weekend'',
       csv_Daypart = ''Morning''\<rparr>,
      \<lparr>csv_TransactionNo = Some 2, csv_Items = ''Coffee'', csv_DayType = ''Weekday'',
       csv_Daypart = ''Brunch''\<rparr>,
      \<lparr>csv_TransactionNo = Some 3, csv_Items = ''Coffee'', csv_DayType = ''Weekday'',
       csv_Daypart = ''Morning''\<rparr>,
      \<lparr>csv_TransactionNo = Some 3, csv_Items = ''Bread'', csv_DayType = ''Weekday'',
       csv_Daypart = ''Morning''\<rparr>,
      \<lparr>csv_TransactionNo = Some 3, csv_Items = ''Tea'', csv_DayType = ''Weekday'',
       csv_Daypart = ''Morning''\<rparr>,
      \<lparr>csv_TransactionNo = Some 4, csv_Items = ''Cake'', csv_DayType = ''Weekday'',
       csv_Daypart = ''Evening''\<rparr>]"

definition sample_df :: "df_row list" where
  "sample_df =
     [\<lparr>TransactionNo = Some 1, Items = Some ''Bread'', DayType = Some ''Weekend'',
       Daypart = Some ''Morning''\<rparr>,
      \<lparr>TransactionNo = Some 2, Items = Some ''Coffee'', DayType = Some ''Weekday'',
       Daypart = None\<rparr>,
      \<lparr>TransactionNo = Some 3, Items = Some ''Coffee'', DayType = Some ''Weekday'',
       Daypart = Some ''Morning''\<rparr>,
      \<lparr>TransactionNo = Some 3, Items = Some ''Bread'', DayType = Some ''Weekday'',
       Daypart = Some ''Morning''\<rparr>,
      \<lparr>TransactionNo = Some 3, Items = Some ''Tea'', DayType = Some ''Weekday'',
       Daypart = Some ''Morning''\<rparr>,
      \<lparr>TransactionNo = Some 4, Items = Some ''Cake'', DayType = Some ''Weekday'',
       Daypart = Some ''Evening''\<rparr>]"

text \<open>A table in which no row is a weekend row.\<close>

definition weekday_only :: "df_row list" where
  "weekday_only =
     [\<lparr>TransactionNo = Some 1, Items = Some ''Coffee'', DayType = Some ''Weekday'',
       Daypart = Some ''Morning''\<rparr>]"

text \<open>A table in which no row is a weekday row.\<close>

definition weekend_only :: "df_row list" where
  "weekend_only =
     [\<lparr>TransactionNo = Some 1, Items = Some ''Coffee'', DayType = Some ''Weekend'',
       Daypart = Some ''Morning''\<rparr>]"

text \<open>The three rows of the specification's example: two rows of one transaction and
  one row of another, all on a weekday.\<close>

definition three_rows :: "df_row list" where
  "three_rows =
     [\<lparr>TransactionNo = Some 1, Items = Some ''Coffee'', DayType = Some ''Weekday'',
       Daypart = Some ''Morning''\<rparr>,
      \<lparr>TransactionNo = Some 1, Items = Some ''Bread'', DayType = Some ''Weekday'',
       Daypart = Some ''Morning''\<rparr>,
      \<lparr>TransactionNo = Some 2, Items = Some ''Tea'', DayType = Some ''Weekday'',
       Daypart = Some ''Morning''\<rparr>]"

text \<open>A table with a tie: two weekday and two weekend transactions, and two items sold
  twice in the morning.\<close>

definition tie_df :: "df_row list" where
  "tie_df =
     [\<lparr>TransactionNo = Some 1, Items = Some ''Bread'', DayType = Some ''Weekday'',
       Daypart = Some ''Morning''\<rparr>,
      \<lparr>TransactionNo = Some 1, Items = Some ''Coffee'', DayType = Some ''Weekday'',
       Daypart = Some ''Morning''\<rparr>,
      \<lparr>TransactionNo = Some 2, Items = Some ''Coffee'', DayType = Some ''Weekday'',
       Daypart = Some ''Morning''\<rparr>,
      \<lparr>TransactionNo = Some 3, Items = Some ''Tea'', DayType = Some ''Weekend'',
       Daypart = Some ''Morning''\<rparr>,
      \<lparr>TransactionNo = Some 3, Items = Some ''Bread'', DayType = Some ''Weekend'',
       Daypart = Some ''Morning''\<rparr>,
      \<lparr>TransactionNo = Some 4, Items = Some ''Cake'', DayType = Some ''Weekend'',
       Daypart = Some ''Evening''\<rparr>]"

section \<open>The classifier\<close>

lemma in_str_iff: "in_str m s \<longleftrightarrow> (\<exists>ps ss. s = ps @ m @ ss)"
proof (induction s)
  case Nil
  show ?case by auto
next
  case (Cons c cs)
  show ?case
  proof
    assume "in_str m (c # cs)"
    then consider "take (length m) (c # cs) = m" | "in_str m cs" by auto
    then show "\<exists>ps ss. c # cs = ps @ m @ ss"
    proof cases
      case 1
      then have "c # cs = [] @ m @ drop (length m) (c # cs)"
        by (metis append_Nil append_take_drop_id)
      then show ?thesis by blast
    next
      case 2
      with Cons.IH obtain ps ss where "cs = ps @ m @ ss" by blast
      then have "c # cs = (c # ps) @ m @ ss" by simp
      then show ?thesis by blast
    qed
  next
    assume "\<exists>ps ss. c # cs = ps @ m @ ss"
    then obtain ps ss where eq: "c # cs = ps @ m @ ss" by blast
    show "in_str m (c # cs)"
    proof (cases ps)
      case Nil
      with eq have "take (length m) (c # cs) = m" by simp
      then show ?thesis by simp
    next
      case (Cons p ps')
      with eq have "cs = ps' @ m @ ss" by simp
      with Cons.IH have "in_str m cs" by blast
      then show ?thesis by simp
    qed
  qed
qed

lemma any_in_iff: "any_in ms item \<longleftrightarrow> (\<exists>m \<in> set ms. in_str m item)"
  by (induction ms) auto

lemma fires_ContainsAny: "fires (ContainsAny ks) s \<longleftrightarrow> (\<exists>k \<in> set ks. in_str k s)"
  by (simp add: filter_empty_conv)

text \<open>
  Claim C2. For every item name, \<^verbatim>\<open>map_item_category\<close> gives what the reference cascade
  of the specification gives on the lower-cased, trimmed name: the Meal keywords first,
  then the Drink chain, then the Dessert chain, then (Other, other). The first match
  wins: "sandwich coffee" holds a Meal and a Drink keyword and is (Meal, meal).
\<close>

theorem map_item_category_refines_cascade:
  "map_item_category s = reference_cascade (strip (lower s))
   \<and> any_in meals (strip (lower ''sandwich coffee''))
   \<and> in_str ''coffee'' (strip (lower ''sandwich coffee''))
   \<and> map_item_category ''sandwich coffee'' = (''Meal'', ''meal'')"
proof -
  have "map_item_category s = reference_cascade (strip (lower s))"
    by (simp add: map_item_category_def reference_cascade_def reference_rules_def
        meals_def Let_def)
  moreover have "any_in meals (strip (lower ''sandwich coffee''))"
    by code_simp
  moreover have "in_str ''coffee'' (strip (lower ''sandwich coffee''))"
    by code_simp
  moreover have "map_item_category ''sandwich coffee'' = (''Meal'', ''meal'')"
    by code_simp
  ultimately show ?thesis by blast
qed

text \<open>
  Claim C6. The bread rule of the Dessert chain is equality with the normalised name,
  not containment: a name is (Dessert, bread) exactly when its normalised form is
  "bread". So "bread" is (Dessert, bread), while "BREAD CRUMBS", whose normalised form
  contains "bread" without being equal to it, matches no rule and is (Other, other).
\<close>

theorem bread_rule_is_equality:
  "(map_item_category s = (''Dessert'', ''bread'')) = (strip (lower s) = ''bread'')
   \<and> map_item_category ''bread'' = (''Dessert'', ''bread'')
   \<and> in_str ''bread'' (strip (lower ''BREAD CRUMBS''))
   \<and> map_item_category ''BREAD CRUMBS'' = (''Other'', ''other'')"
proof -
  have "(map_item_category s = (''Dessert'', ''bread'')) = (strip (lower s) = ''bread'')"
  proof (cases "strip (lower s) = ''bread''")
    case True
    then show ?thesis
      by (simp add: map_item_category_def meals_def Let_def)
  next
    case False
    then show ?thesis
      by (simp add: map_item_category_def Let_def)
  qed
  moreover have "map_item_category ''bread'' = (''Dessert'', ''bread'')"
    by code_simp
  moreover have "in_str ''bread'' (strip (lower ''BREAD CRUMBS''))"
    by code_simp
  moreover have "map_item_category ''BREAD CRUMBS'' = (''Other'', ''other'')"
    by code_simp
  ultimately show ?thesis by blast
qed

text \<open>
  Claim C8. \<^verbatim>\<open>map_item_category\<close> is total: every item name gets one pair, the pair
  belongs to the fixed taxonomy, the pairs of the taxonomy are pairwise different, and
  a name on which no rule fires gets (Other, other).
\<close>

theorem map_item_category_total:
  "map_item_category s \<in> set taxonomy
   \<and> distinct taxonomy
   \<and> ((\<forall>r \<in> set reference_rules. \<not> fires (fst r) (strip (lower s)))
        \<longrightarrow> map_item_category s = (''Other'', ''other''))"
proof -
  have "map_item_category s \<in> set taxonomy"
    by (simp add: map_item_category_def taxonomy_def Let_def)
  moreover have "distinct taxonomy"
    by (simp add: taxonomy_def)
  moreover have "(\<forall>r \<in> set reference_rules. \<not> fires (fst r) (strip (lower s)))
        \<longrightarrow> map_item_category s = (''Other'', ''other'')"
    by (simp add: map_item_category_def reference_rules_def meals_def Let_def)
  ultimately show ?thesis by blast
qed

theorem map_item_category_total_witness:
  "map_item_category ''Jam'' \<in> set taxonomy
   \<and> map_item_category ''Jam'' = (''Other'', ''other'')"
proof -
  have h: "\<forall>r \<in> set reference_rules. \<not> fires (fst r) (strip (lower ''Jam''))"
    by code_simp
  from map_item_category_total [of "''Jam''"] h show ?thesis by blast
qed

section \<open>Loading\<close>

lemma set_dropna: "set (dropna col) = {v. Some v \<in> set col}"
  by (induction col) (auto simp: dropna_def)

lemma load_data_eq:
  "load_data na (Some rows) =
     Some (map (\<lambda>r. \<lparr>TransactionNo = csv_TransactionNo r,
                      Items = Some (csv_Items r),
                      DayType = read_cell na (csv_DayType r),
                      Daypart = Categorical daypart_order (read_cell na (csv_Daypart r))\<rparr>)
               (filter (\<lambda>r. csv_Items r \<notin> set na) rows))"
  by (induction rows) (auto simp: load_data_def read_csv_def dropna_Items_def read_cell_def Let_def)

lemma Categorical_Some: "Categorical cats v = Some x \<longleftrightarrow> v = Some x \<and> x \<in> set cats"
  by (auto simp: Categorical_def split: option.splits)



lemma daypart_items_load:
  "daypart_items d (the (load_data na (Some rows))) =
     map (\<lambda>r. Some (csv_Items r))
       (filter (\<lambda>r. csv_Items r \<notin> set na \<and>
                  Categorical daypart_order (read_cell na (csv_Daypart r)) = Some d) rows)"
  by (induction rows) (auto simp: load_data_eq daypart_items_def)

lemma daypart_items_ignores_missing:
  "daypart_items d (filter (\<lambda>r. Daypart r \<noteq> None) df) = daypart_items d df"
  by (induction df) (auto simp: daypart_items_def)

lemma Categorical_outside:
  "x \<notin> set cats \<Longrightarrow> Categorical cats (Some x) = None"
  by (simp add: Categorical_def)

lemma Categorical_read_outside:
  "txt \<notin> set cats \<Longrightarrow> Categorical cats (read_cell na txt) = None"
  by (simp add: Categorical_def read_cell_def)

lemma daypart_items_load_filter:
  "daypart_items d (the (load_data na (Some (filter (\<lambda>r. csv_Daypart r \<in> set daypart_order) rows))))
   = daypart_items d (the (load_data na (Some rows)))"
  unfolding daypart_items_load filter_filter
  by (rule arg_cong [where f = "map _"], rule filter_cong)
     (auto simp: Categorical_Some read_cell_def split: if_splits)

section \<open>Top items\<close>

lemma set_first_seen: "set (first_seen xs) = set xs"
  by (induction xs) auto

lemma distinct_first_seen: "distinct (first_seen xs)"
  by (induction xs) (auto simp: distinct_removeAll)

lemma first_seen_order:
  "sorted_wrt (\<lambda>a b. first_index a xs < first_index b xs) (first_seen xs)"
proof (induction xs)
  case Nil
  show ?case by simp
next
  case (Cons x xs)
  let ?ys = "removeAll x (first_seen xs)"
  have "sorted_wrt (\<lambda>a b. first_index a xs < first_index b xs) ?ys"
    using Cons.IH by (simp add: removeAll_filter_not_eq sorted_wrt_filter)
  then have "sorted_wrt (\<lambda>a b. first_index a (x # xs) < first_index b (x # xs)) ?ys"
    by (rule sorted_wrt_mono_rel [rotated]) auto
  moreover have "\<forall>b \<in> set ?ys. first_index x (x # xs) < first_index b (x # xs)"
    by auto
  ultimately show ?case by simp
qed

lemma insort_key_ties:
  assumes "sorted_wrt (\<lambda>a b. f a < f b \<or> (f a = f b \<and> R a b)) ys"
    and "\<forall>y \<in> set ys. R x y"
  shows "sorted_wrt (\<lambda>a b. f a < f b \<or> (f a = f b \<and> R a b)) (insort_key f x ys)"
  using assms
proof (induction ys)
  case Nil
  show ?case by simp
next
  case (Cons y ys)
  show ?case
  proof (cases "f x \<le> f y")
    case True
    have "\<forall>z \<in> set (y # ys). f x < f z \<or> (f x = f z \<and> R x z)"
    proof
      fix z assume z: "z \<in> set (y # ys)"
      have "f y \<le> f z" using Cons.prems(1) z by auto
      with True have "f x \<le> f z" by simp
      moreover have "R x z" using Cons.prems(2) z by blast
      ultimately show "f x < f z \<or> (f x = f z \<and> R x z)" by auto
    qed
    with True Cons.prems(1) show ?thesis by simp
  next
    case False
    have "sorted_wrt (\<lambda>a b. f a < f b \<or> (f a = f b \<and> R a b)) (insort_key f x ys)"
      using Cons by simp
    moreover have "\<forall>z \<in> set (insort_key f x ys). f y < f z \<or> (f y = f z \<and> R y z)"
      using False Cons.prems(1) by (auto simp: set_insort_key)
    ultimately show ?thesis using False by simp
  qed
qed

lemma sort_key_ties:
  "sorted_wrt R xs \<Longrightarrow>
   sorted_wrt (\<lambda>a b. f a < f b \<or> (f a = f b \<and> R a b)) (sort_key f xs)"
proof (induction xs)
  case Nil
  show ?case by simp
next
  case (Cons x xs)
  then have "sorted_wrt (\<lambda>a b. f a < f b \<or> (f a = f b \<and> R a b)) (sort_key f xs)" by simp
  moreover have "\<forall>y \<in> set (sort_key f xs). R x y" using Cons.prems by simp
  ultimately show ?case by (simp add: insort_key_ties)
qed

lemma value_counts_order:
  "sorted_wrt (\<lambda>a b. snd b < snd a \<or>
       (snd a = snd b \<and> first_index (fst a) (dropna col) < first_index (fst b) (dropna col)))
     (value_counts col)"
proof -
  let ?vals = "dropna col"
  let ?kvs = "map (\<lambda>k. (k, count_list ?vals k)) (first_seen ?vals)"
  let ?R = "\<lambda>a b. first_index (fst a) ?vals < first_index (fst b) ?vals"
  let ?f = "\<lambda>p :: 'a \<times> nat. - int (snd p)"
  have "sorted_wrt ?R ?kvs"
    using first_seen_order [of ?vals] by (simp add: sorted_wrt_map)
  then have "sorted_wrt (\<lambda>a b. ?f a < ?f b \<or> (?f a = ?f b \<and> ?R a b)) (sort_key ?f ?kvs)"
    by (rule sort_key_ties)
  then show ?thesis by (simp add: value_counts_def Let_def)
qed

lemma set_value_counts:
  "set (value_counts col) = (\<lambda>k. (k, count_list (dropna col) k)) ` set (dropna col)"
  by (simp add: value_counts_def Let_def set_first_seen)

lemma distinct_value_counts: "distinct (map fst (value_counts col))"
proof -
  have "distinct (value_counts col)"
    by (simp add: value_counts_def Let_def distinct_map distinct_first_seen inj_on_def)
  moreover have "inj_on fst (set (value_counts col))"
    by (auto simp: set_value_counts inj_on_def)
  ultimately show ?thesis by (simp add: distinct_map)
qed

lemma value_counts_empty: "value_counts [] = []"
  by (simp add: value_counts_def dropna_def)

lemma topItemsByDaypart_empty:
  "\<forall>r \<in> set df. Daypart r \<noteq> Some d \<Longrightarrow> topItemsByDaypart d limit df = []"
  by (simp add: topItemsByDaypart_def daypart_items_def filter_False value_counts_empty)

lemma topItemsByCategory_empty:
  "\<forall>r \<in> set df. \<not> (Category r = c \<and> Sub_Category r = s) \<Longrightarrow> topItemsByCategory c s limit df = []"
  by (simp add: topItemsByCategory_def category_items_def value_counts_empty)

text \<open>
  Claim C5. \<^verbatim>\<open>topItemsByDaypart d limit\<close> has at most \<open>limit\<close> entries, its counts
  descend, every entry is an item of some row of daypart \<open>d\<close> together with the number
  of its occurrences in the rows of daypart \<open>d\<close>, and of two entries with equal counts
  the one whose item is seen first in those rows comes first.
\<close>

theorem topItemsByDaypart_ranked:
  fixes df :: "('a df_row_scheme) list"
  shows "length (topItemsByDaypart d limit df) \<le> limit
   \<and> sorted_wrt (\<lambda>a b. snd a \<ge> snd b) (topItemsByDaypart d limit df)
   \<and> (\<forall>p \<in> set (topItemsByDaypart d limit df).
         (\<exists>r \<in> set df. Daypart r = Some d \<and> Items r = Some (fst p))
         \<and> snd p = count_list (dropna (daypart_items d df)) (fst p))
   \<and> sorted_wrt (\<lambda>a b. snd a = snd b \<longrightarrow>
         first_index (fst a) (dropna (daypart_items d df))
           < first_index (fst b) (dropna (daypart_items d df)))
       (topItemsByDaypart d limit df)"
proof -
  let ?res = "topItemsByDaypart d limit df"
  let ?items = "dropna (daypart_items d df)"
  have ord: "sorted_wrt (\<lambda>a b. snd b < snd a \<or>
       (snd a = snd b \<and> first_index (fst a) ?items < first_index (fst b) ?items)) ?res"
    unfolding topItemsByDaypart_def by (rule sorted_wrt_take) (rule value_counts_order)
  have len: "length ?res \<le> limit"
    by (simp add: topItemsByDaypart_def)
  have desc: "sorted_wrt (\<lambda>a b. snd a \<ge> snd b) ?res"
    by (rule sorted_wrt_mono_rel [OF _ ord]) auto
  have ties: "sorted_wrt (\<lambda>a b. snd a = snd b \<longrightarrow>
         first_index (fst a) ?items < first_index (fst b) ?items) ?res"
    by (rule sorted_wrt_mono_rel [OF _ ord]) auto
  have mem: "\<forall>p \<in> set ?res. (\<exists>r \<in> set df. Daypart r = Some d \<and> Items r = Some (fst p))
         \<and> snd p = count_list ?items (fst p)"
  proof
    fix p assume "p \<in> set ?res"
    then have "p \<in> set (value_counts (daypart_items d df))"
      unfolding topItemsByDaypart_def by (rule in_set_takeD)
    then have "fst p \<in> set ?items" and c: "snd p = count_list ?items (fst p)"
      by (auto simp: set_value_counts)
    then have "Some (fst p) \<in> set (daypart_items d df)"
      by (simp add: set_dropna)
    then have "\<exists>r \<in> set df. Daypart r = Some d \<and> Items r = Some (fst p)"
      by (auto simp: daypart_items_def)
    with c show "(\<exists>r \<in> set df. Daypart r = Some d \<and> Items r = Some (fst p))
         \<and> snd p = count_list ?items (fst p)" by blast
  qed
  from len desc mem ties show ?thesis by blast
qed

theorem topItemsByDaypart_ranked_witness: "topItemsByDaypart ''Morning'' 2 tie_df = [(''Bread'', 2), (''Coffee'', 2)]"
proof -
  have v: "topItemsByDaypart ''Morning'' 2 tie_df = [(''Bread'', 2), (''Coffee'', 2)]"
    by code_simp
  from topItemsByDaypart_ranked [of "''Morning''" 2 tie_df] v show ?thesis by simp
qed

text \<open>
  Claim C10. \<^verbatim>\<open>load_data\<close> coerces the Daypart column to the categories Morning,
  Afternoon, Evening, Night: a value outside them becomes missing, the row stays in the
  table and the load does not fail. Such a row takes part in no daypart view: for every
  daypart argument and limit, \<^verbatim>\<open>topItemsByDaypart\<close> gives the same result on the table
  without the rows whose daypart is missing, and the same result as on a file from which
  the rows with a Daypart outside the categories were removed.
\<close>

theorem daypart_outside_categories_excluded:
  "\<exists>df df'. load_data na (Some rows) = Some df
     \<and> load_data na (Some (filter (\<lambda>r. csv_Daypart r \<in> set daypart_order) rows)) = Some df'
     \<and> map Daypart df =
         map (\<lambda>r. Categorical daypart_order (read_cell na (csv_Daypart r)))
             (filter (\<lambda>r. csv_Items r \<notin> set na) rows)
     \<and> (\<forall>txt. txt \<notin> set daypart_order \<longrightarrow> Categorical daypart_order (read_cell na txt) = None)
     \<and> (\<forall>r \<in> set df. \<forall>x. Daypart r = Some x \<longrightarrow> x \<in> set daypart_order)
     \<and> (\<forall>d limit. topItemsByDaypart d limit df
            = topItemsByDaypart d limit (filter (\<lambda>r. Daypart r \<noteq> None) df))
     \<and> (\<forall>d limit. topItemsByDaypart d limit df = topItemsByDaypart d limit df')"
proof -
  obtain df where df: "load_data na (Some rows) = Some df"
    by (simp add: load_data_eq)
  obtain df' where df': "load_data na (Some (filter (\<lambda>r. csv_Daypart r \<in> set daypart_order) rows)) = Some df'"
    by (simp add: load_data_eq)
  have 1: "map Daypart df =
         map (\<lambda>r. Categorical daypart_order (read_cell na (csv_Daypart r)))
             (filter (\<lambda>r. csv_Items r \<notin> set na) rows)"
    using df by (auto simp: load_data_eq comp_def)
  have 2: "\<forall>txt. txt \<notin> set daypart_order \<longrightarrow> Categorical daypart_order (read_cell na txt) = None"
    by (simp add: Categorical_read_outside)
  have 3: "\<forall>r \<in> set df. \<forall>x. Daypart r = Some x \<longrightarrow> x \<in> set daypart_order"
    using df by (auto simp: load_data_eq Categorical_Some)
  have 4: "\<forall>d limit. topItemsByDaypart d limit df
            = topItemsByDaypart d limit (filter (\<lambda>r. Daypart r \<noteq> None) df)"
    by (simp only: topItemsByDaypart_def daypart_items_ignores_missing) simp
  have 5: "\<forall>d limit. topItemsByDaypart d limit df = topItemsByDaypart d limit df'"
    using daypart_items_load_filter [of _ na rows] df df'
    by (simp add: topItemsByDaypart_def)
  from df df' 1 2 3 4 5 show ?thesis by blast
qed

theorem daypart_outside_categories_excluded_witness: "load_data [[]] (Some sample_csv) = Some sample_df
    \<and> topItemsByDaypart ''Morning'' 5 sample_df = [(''Bread'', 2), (''Coffee'', 1), (''Tea'', 1)]
    \<and> topItemsByDaypart ''Brunch'' 5 sample_df = []"
proof -
  have l: "load_data [[]] (Some sample_csv) = Some sample_df" by code_simp
  have v: "topItemsByDaypart ''Morning'' 5 sample_df = [(''Bread'', 2), (''Coffee'', 1), (''Tea'', 1)]"
    by code_simp
  have e: "topItemsByDaypart ''Brunch'' 5 sample_df = []" by code_simp
  from daypart_outside_categories_excluded [of "[[]]" sample_csv] l v e show ?thesis by simp
qed

section \<open>Transactions per day type and the comparison\<close>

lemma nunique_card: "nunique col = card {v. Some v \<in> set col}"
  by (simp add: nunique_def length_remdups_card_conv set_dropna)

lemma keys_set: "set (sort (remdups (dropna (map DayType df)))) = {d. \<exists>r \<in> set df. DayType r = Some d}"
  by (auto simp: set_dropna image_iff) metis+

lemma map_of_counts:
  "map_of (transactionCountByDayType df) d =
     (if \<exists>r \<in> set df. DayType r = Some d
      then Some (card {t. \<exists>r \<in> set df. DayType r = Some d \<and> TransactionNo r = Some t})
      else None)"
proof -
  let ?f = "\<lambda>k. nunique (map TransactionNo (filter (\<lambda>r. DayType r = Some k) df))"
  let ?ks = "sort (remdups (dropna (map DayType df)))"
  have "map_of (transactionCountByDayType df) d = (if d \<in> set ?ks then Some (?f d) else None)"
    unfolding transactionCountByDayType_def
    by (simp add: map_of_map_restrict restrict_map_def del: set_sort set_remdups)
  moreover have "?f d = card {t. \<exists>r \<in> set df. DayType r = Some d \<and> TransactionNo r = Some t}"
    unfolding nunique_card by (rule arg_cong [where f = card]) (auto simp: image_iff)
  moreover have "d \<in> set ?ks \<longleftrightarrow> (\<exists>r \<in> set df. DayType r = Some d)"
    unfolding keys_set by simp
  ultimately show ?thesis by simp
qed

lemma distinct_keys: "distinct (map fst (transactionCountByDayType df))"
  by (simp add: transactionCountByDayType_def comp_def)

lemma sorted_keys: "sorted (map fst (transactionCountByDayType df))"
  by (simp add: transactionCountByDayType_def comp_def)

lemma total_of_eq:
  "distinct (map fst sales) \<Longrightarrow> total_of k sales = (case map_of sales k of None \<Rightarrow> [] | Some n \<Rightarrow> [n])"
proof (induction sales)
  case Nil
  then show ?case by (simp add: total_of_def)
next
  case (Cons p ps)
  then show ?case
    by (cases p) (auto simp: total_of_def filter_empty_conv split: option.splits dest: map_of_SomeD weak_map_of_SomeI)
qed

lemma transactionCountByDayType_empty:
  "\<forall>r \<in> set df. DayType r = None \<Longrightarrow> transactionCountByDayType df = []"
proof -
  assume "\<forall>r \<in> set df. DayType r = None"
  then have "dropna (map DayType df) = []"
    by (induction df) (auto simp: dropna_def)
  then show ?thesis by (simp add: transactionCountByDayType_def)
qed

text \<open>
  Claim C3. \<^verbatim>\<open>transactionCountByDayType\<close> has one entry for each day type that occurs,
  and its count is the number of distinct transaction numbers among the rows of that day
  type, not the number of rows: the three rows (T1, Weekday), (T1, Weekday),
  (T2, Weekday) give the weekday count 2.
\<close>

theorem transactionCountByDayType_distinct:
  fixes df :: "('a df_row_scheme) list"
  shows "map_of (transactionCountByDayType df) d =
     (if \<exists>r \<in> set df. DayType r = Some d
      then Some (card {t. \<exists>r \<in> set df. DayType r = Some d \<and> TransactionNo r = Some t})
      else None)
   \<and> distinct (map fst (transactionCountByDayType df))
   \<and> length three_rows = 3
   \<and> transactionCountByDayType three_rows = [(''Weekday'', 2)]"
proof -
  have "length three_rows = 3" by (simp add: three_rows_def)
  moreover have "transactionCountByDayType three_rows = [(''Weekday'', 2)]" by code_simp
  ultimately show ?thesis using map_of_counts [of df d] distinct_keys [of df] by simp
qed

theorem transactionCountByDayType_distinct_witness: "map_of (transactionCountByDayType tie_df) ''Weekend'' = Some 2
  \<and> length (filter (\<lambda>r. DayType r = Some ''Weekend'') tie_df) = 3"
proof -
  have v: "map_of (transactionCountByDayType tie_df) ''Weekend'' = Some 2" by code_simp
  have l: "length (filter (\<lambda>r. DayType r = Some ''Weekend'') tie_df) = 3" by code_simp
  from transactionCountByDayType_distinct [of tie_df "''Weekend''"] v l show ?thesis by simp
qed

lemma iloc0_total_of:
  "iloc0 (total_of k (transactionCountByDayType df)) =
     (case map_of (transactionCountByDayType df) k of None \<Rightarrow> Inl IndexError | Some n \<Rightarrow> Inr n)"
  by (simp add: total_of_eq [OF distinct_keys] iloc0_def split: option.splits)

lemma color_map_Inl:
  "iloc0 (total_of ''Weekend'' sales) = Inl e \<Longrightarrow> color_map sales = Inl e"
  by (simp add: color_map_def)

lemma color_map_Inr:
  "iloc0 (total_of ''Weekend'' sales) = Inr w \<Longrightarrow> \<exists>cm. color_map sales = Inr cm"
  by (simp add: color_map_def)

lemma compare_eq:
  "compareWeekendVsWeekday df =
     (if (\<exists>r \<in> set df. DayType r = Some ''Weekend'') \<and> (\<exists>r \<in> set df. DayType r = Some ''Weekday'')
      then Inr (card {t. \<exists>r \<in> set df. DayType r = Some ''Weekend'' \<and> TransactionNo r = Some t},
                card {t. \<exists>r \<in> set df. DayType r = Some ''Weekday'' \<and> TransactionNo r = Some t},
                winner (card {t. \<exists>r \<in> set df. DayType r = Some ''Weekend'' \<and> TransactionNo r = Some t})
                       (card {t. \<exists>r \<in> set df. DayType r = Some ''Weekday'' \<and> TransactionNo r = Some t}))
      else Inl IndexError)"
proof (cases "\<exists>r \<in> set df. DayType r = Some ''Weekend''")
  case False
  then have "iloc0 (total_of ''Weekend'' (transactionCountByDayType df)) = Inl IndexError"
    by (simp add: iloc0_total_of map_of_counts)
  then have "color_map (transactionCountByDayType df) = Inl IndexError"
    by (rule color_map_Inl)
  with False show ?thesis
    by (simp add: compareWeekendVsWeekday_def Let_def)
next
  case True
  let ?we = "card {t. \<exists>r \<in> set df. DayType r = Some ''Weekend'' \<and> TransactionNo r = Some t}"
  from True have we: "iloc0 (total_of ''Weekend'' (transactionCountByDayType df)) = Inr ?we"
    by (simp add: iloc0_total_of map_of_counts)
  then obtain cm where cm: "color_map (transactionCountByDayType df) = Inr cm"
    using color_map_Inr by blast
  show ?thesis
  proof (cases "\<exists>r \<in> set df. DayType r = Some ''Weekday''")
    case False
    then have "iloc0 (total_of ''Weekday'' (transactionCountByDayType df)) = Inl IndexError"
      by (simp add: iloc0_total_of map_of_counts)
    with False we cm show ?thesis
      by (simp add: compareWeekendVsWeekday_def Let_def)
  next
    case wd: True
    then have "iloc0 (total_of ''Weekday'' (transactionCountByDayType df)) =
        Inr (card {t. \<exists>r \<in> set df. DayType r = Some ''Weekday'' \<and> TransactionNo r = Some t})"
      by (simp add: iloc0_total_of map_of_counts)
    with True wd we cm show ?thesis
      by (simp add: compareWeekendVsWeekday_def Let_def)
  qed
qed

text \<open>
  Claim C4. On a table with weekend rows and weekday rows the comparison returns the two
  distinct-transaction counts and the winner, and the winner is Weekend exactly when the
  weekend count is strictly greater; on a tie the winner is Weekday. Counts 120 and 80
  give Weekend, counts 100 and 100 give Weekday.
\<close>

theorem compareWeekendVsWeekday_winner:
  assumes "\<exists>r \<in> set df. DayType r = Some ''Weekend''"
    and "\<exists>r \<in> set df. DayType r = Some ''Weekday''"
  shows "\<exists>we wd w. compareWeekendVsWeekday df = Inr (we, wd, w)
     \<and> we = card {t. \<exists>r \<in> set df. DayType r = Some ''Weekend'' \<and> TransactionNo r = Some t}
     \<and> wd = card {t. \<exists>r \<in> set df. DayType r = Some ''Weekday'' \<and> TransactionNo r = Some t}
     \<and> (w = ''Weekend'') = (wd < we)
     \<and> (w = ''Weekday'') = (we \<le> wd)
     \<and> winner 120 80 = ''Weekend'' \<and> winner 100 100 = ''Weekday''"
  using assms by (simp add: compare_eq winner_def)

theorem compareWeekendVsWeekday_winner_witness: "compareWeekendVsWeekday tie_df = Inr (2, 2, ''Weekday'')"
proof -
  have h1: "\<exists>r \<in> set tie_df. DayType r = Some ''Weekend''" by (simp add: tie_df_def)
  have h2: "\<exists>r \<in> set tie_df. DayType r = Some ''Weekday''" by (simp add: tie_df_def)
  have v: "compareWeekendVsWeekday tie_df = Inr (2, 2, ''Weekday'')" by code_simp
  from compareWeekendVsWeekday_winner [OF h1 h2] v show ?thesis by simp
qed

text \<open>
  Claim C1. On a table without weekend rows the totals per day type hold no weekend
  entry, reading its first element fails, and the comparison raises \<^verbatim>\<open>IndexError\<close>
  instead of returning a zero count. The same happens on a table without weekday rows
  and on the empty table.
\<close>

theorem compareWeekendVsWeekday_raises_without_weekend:
  "transactionCountByDayType weekday_only = [(''Weekday'', 1)]
   \<and> total_of ''Weekend'' (transactionCountByDayType weekday_only) = []
   \<and> compareWeekendVsWeekday weekday_only = Inl IndexError
   \<and> compareWeekendVsWeekday weekend_only = Inl IndexError
   \<and> compareWeekendVsWeekday ([] :: df_row list) = Inl IndexError"
  by code_simp

section \<open>Runs of the script\<close>








end
